theory Spec2Isabelle
  imports Complex_Main
begin

section \<open>Browser script: the DOM as an explicit store\<close>

text \<open>
  \<^verbatim>\<open>script.js\<close> reads and mutates \<^verbatim>\<open>element.classList\<close> and writes to the console.
  Both are made explicit: every element of the page has an identity (a number) and a
  class list, the ordered token set of its \<^verbatim>\<open>DOMTokenList\<close>; the console is the list
  of the argument lists passed to \<^verbatim>\<open>console.warn\<close>, oldest first.
\<close>

type_synonym token_list = "string list"

record browser =
  classList :: "nat \<Rightarrow> token_list"
  warnings :: "string list list"

text \<open>
  The value passed as \<^verbatim>\<open>element\<close>: a reference to an element of the page, or
  \<^verbatim>\<open>null\<close>, on which the first property read raises a \<^verbatim>\<open>TypeError\<close>.
\<close>

datatype element_ref = Null | Element nat

text \<open>
  What a \<^verbatim>\<open>catch\<close> can receive in this program: a \<^verbatim>\<open>TypeError\<close> of the
  runtime with its message, or the error with which the HTTP client rejects, tagged with
  the reason of the failure and carrying its message.
\<close>

datatype failure_cause = NetworkError | UpstreamStatus nat | Timeout

datatype js_error = TypeError string | AxiosError failure_cause string

fun message :: "js_error \<Rightarrow> string" where
  "message (TypeError m) = m"
| "message (AxiosError c m) = m"

subsection \<open>\<^verbatim>\<open>DOMTokenList\<close>: contains, add, remove, toggle\<close>

definition contains :: "token_list \<Rightarrow> string \<Rightarrow> bool" where
  "contains ts t = (t \<in> set ts)"

text \<open>\<^verbatim>\<open>add\<close> appends the token to the ordered set unless it is there already.\<close>

definition add :: "token_list \<Rightarrow> string \<Rightarrow> token_list" where
  "add ts t = (if contains ts t then ts else ts @ [t])"

definition remove :: "token_list \<Rightarrow> string \<Rightarrow> token_list" where
  "remove ts t = removeAll t ts"

text \<open>
  \<^verbatim>\<open>toggle(token)\<close> without the \<^verbatim>\<open>force\<close> argument: removes a token that is present and
  returns false, adds one that is absent and returns true.
\<close>

definition toggle :: "token_list \<Rightarrow> string \<Rightarrow> bool \<times> token_list" where
  "toggle ts t = (if contains ts t then (False, remove ts t) else (True, add ts t))"

subsection \<open>\<^verbatim>\<open>manageAnimationState\<close>\<close>

record animation_state_result =
  success :: bool
  newState :: bool
  element :: element_ref

definition set_classList :: "browser \<Rightarrow> nat \<Rightarrow> token_list \<Rightarrow> browser" where
  "set_classList b e ts = b\<lparr>classList := (classList b)(e := ts)\<rparr>"

definition console_warn :: "browser \<Rightarrow> string list \<Rightarrow> browser" where
  "console_warn b args = b\<lparr>warnings := warnings b @ [args]\<rparr>"

text \<open>
  The body of the function, line by line: \<^verbatim>\<open>currentState\<close> is read at entry,
  \<^verbatim>\<open>result\<close> starts as false, the \<^verbatim>\<open>switch\<close> compares the action with the three
  literals in the source's order and falls to \<^verbatim>\<open>default\<close> otherwise, and the returned
  object reads the class list again.
\<close>

definition manageAnimationState ::
  "browser \<Rightarrow> element_ref \<Rightarrow> string \<Rightarrow> js_error + (animation_state_result \<times> browser)" where
  "manageAnimationState b el action =
     (case el of
        Null \<Rightarrow> Inl (TypeError ''Cannot read properties of null (reading 'classList')'')
      | Element e \<Rightarrow>
          (let currentState = contains (classList b e) ''animating'';
               result = False;
               (result, b') =
                 (if action = ''start'' then
                    (True, set_classList b e (add (classList b e) ''animating''))
                  else if action = ''stop'' then
                    (True, set_classList b e (remove (classList b e) ''animating''))
                  else if action = ''toggle'' then
                    (\<not> currentState,
                     set_classList b e (snd (toggle (classList b e) ''animating'')))
                  else
                    (result, console_warn b [''Invalid animation action:'', action]))
           in Inr (\<lparr>success = result,
                     newState = contains (classList b' e) ''animating'',
                     element = el\<rparr>, b')))"

text \<open>
  Successive calls on one element, each on the page left by the one before, collecting
  the returned records; an exception ends the sequence.
\<close>

fun manage_all ::
  "browser \<Rightarrow> element_ref \<Rightarrow> string list \<Rightarrow> js_error + (animation_state_result list \<times> browser)" where
  "manage_all b el [] = Inr ([], b)"
| "manage_all b el (a # as) =
     (case manageAnimationState b el a of
        Inl err \<Rightarrow> Inl err
      | Inr (r, b') \<Rightarrow>
          (case manage_all b' el as of
             Inl err \<Rightarrow> Inl err
           | Inr (rs, b'') \<Rightarrow> Inr (r # rs, b'')))"

subsection \<open>\<^verbatim>\<open>calculateAnimationDuration\<close>\<close>

text \<open>
  The function uses one division and two multiplications of JavaScript numbers, in the
  order written here. The definition is generic in the number type, so that what is proved
  of it needs no law of arithmetic and holds for any reading of \<open>*\<close> and \<open>/\<close>.
\<close>

definition calculateAnimationDuration :: "'a::{times,inverse,numeral} \<Rightarrow> 'a \<Rightarrow> 'a \<Rightarrow> 'a" where
  "calculateAnimationDuration baseDuration speedMultiplier elementSize =
     (let sizeFactor = elementSize / 100;
          adjustedDuration = baseDuration * speedMultiplier * sizeFactor
      in adjustedDuration)"

subsection \<open>\<^verbatim>\<open>createScopedCounter\<close>\<close>

text \<open>
  The closure environment shared by the four returned functions: the mutable local
  \<^verbatim>\<open>count\<close> and the parameter \<^verbatim>\<open>initialValue\<close>, which nothing assigns after the call.
  A missing argument is \<open>None\<close> and takes the default of the parameter. Each method
  returns its value and the environment it leaves.
\<close>

record counter =
  count :: int
  initialValue :: int

definition createScopedCounter :: "int option \<Rightarrow> counter" where
  "createScopedCounter arg =
     (let initial = (case arg of None \<Rightarrow> 0 | Some v \<Rightarrow> v)
      in \<lparr>count = initial, initialValue = initial\<rparr>)"

definition increment :: "int option \<Rightarrow> counter \<Rightarrow> int \<times> counter" where
  "increment arg c =
     (let step = (case arg of None \<Rightarrow> 1 | Some v \<Rightarrow> v);
          c' = c\<lparr>count := count c + step\<rparr>
      in (count c', c'))"

definition decrement :: "int option \<Rightarrow> counter \<Rightarrow> int \<times> counter" where
  "decrement arg c =
     (let step = (case arg of None \<Rightarrow> 1 | Some v \<Rightarrow> v);
          c' = c\<lparr>count := count c - step\<rparr>
      in (count c', c'))"

definition reset :: "counter \<Rightarrow> int \<times> counter" where
  "reset c = (let c' = c\<lparr>count := initialValue c\<rparr> in (count c', c'))"

definition getValue :: "counter \<Rightarrow> int \<times> counter" where
  "getValue c = (count c, c)"

text \<open>Any sequence of method calls on one counter.\<close>

datatype counter_call = Increment "int option" | Decrement "int option" | Reset | GetValue

fun call :: "counter_call \<Rightarrow> counter \<Rightarrow> int \<times> counter" where
  "call (Increment arg) c = increment arg c"
| "call (Decrement arg) c = decrement arg c"
| "call Reset c = reset c"
| "call GetValue c = getValue c"

fun calls :: "counter_call list \<Rightarrow> counter \<Rightarrow> counter" where
  "calls [] c = c"
| "calls (x # xs) c = calls xs (snd (call x c))"

section \<open>Server: the payment relay\<close>

text \<open>
  JavaScript values as \<^verbatim>\<open>server.js\<close> handles them: what \<^verbatim>\<open>express.json()\<close> leaves in
  \<^verbatim>\<open>req.body\<close>, the object literal given to the HTTP client, and the bodies that come
  back. The pairs of an object are its properties with distinct keys, in insertion order.
\<close>

datatype json =
    JUndefined
  | JNull
  | JBoolean bool
  | JNumber real
  | JString string
  | JArray "json list"
  | JObject "(string \<times> json) list"

text \<open>
  Reading a property, \<^verbatim>\<open>v.key\<close>: a \<^verbatim>\<open>TypeError\<close> on \<^verbatim>\<open>undefined\<close> and \<^verbatim>\<open>null\<close>, the
  property's value on an object that has it, \<^verbatim>\<open>undefined\<close> otherwise. The keys read by
  the handler (\<^verbatim>\<open>amount\<close>, \<^verbatim>\<open>email\<close>, \<^verbatim>\<open>name\<close>) are no properties of a boolean, number,
  string or array.
\<close>

definition quoted :: "string \<Rightarrow> string" where
  "quoted key = CHR 0x27 # key @ [CHR 0x27]"

fun get_prop :: "json \<Rightarrow> string \<Rightarrow> js_error + json" where
  "get_prop JUndefined key =
     Inl (TypeError (''Cannot read properties of undefined (reading '' @ quoted key @ '')''))"
| "get_prop JNull key =
     Inl (TypeError (''Cannot read properties of null (reading '' @ quoted key @ '')''))"
| "get_prop (JObject props) key =
     Inr (case map_of props key of None \<Rightarrow> JUndefined | Some v \<Rightarrow> v)"
| "get_prop v key = Inr JUndefined"

subsection \<open>\<^verbatim>\<open>Date.now().toString()\<close>\<close>

text \<open>
  \<^verbatim>\<open>Date.now()\<close> is an integer, the milliseconds since the epoch; \<^verbatim>\<open>toString\<close> writes
  an integer of that size in decimal, with a minus sign when it is negative.
\<close>

definition digit_char :: "nat \<Rightarrow> char" where
  "digit_char d = ''0123456789'' ! d"

fun digits :: "nat \<Rightarrow> string" where
  "digits n = (if n < 10 then [digit_char n] else digits (n div 10) @ [digit_char (n mod 10)])"

declare digits.simps [simp del]

definition Number_toString :: "int \<Rightarrow> string" where
  "Number_toString n = (if n < 0 then CHR ''-'' # digits (nat (- n)) else digits (nat n))"

text \<open>
  The reverse reading, which is not in the source: the integer that a decimal string
  written by \<open>Number_toString\<close> denotes. It serves to state that \<^verbatim>\<open>tx_ref\<close> is the
  clock value and not only some string made from it.
\<close>

definition digit_value :: "char \<Rightarrow> nat" where
  "digit_value c = of_char c - 48"

definition decimal_value :: "string \<Rightarrow> nat" where
  "decimal_value s = foldl (\<lambda>acc c. 10 * acc + digit_value c) 0 s"

definition Number_of_string :: "string \<Rightarrow> int" where
  "Number_of_string s =
     (case s of
        [] \<Rightarrow> 0
      | c # ds \<Rightarrow> if c = CHR ''-'' then - int (decimal_value ds) else int (decimal_value s))"

subsection \<open>The HTTP client and the response object\<close>

text \<open>
  The call \<^verbatim>\<open>axios.post(url, data, {headers})\<close> as a value, and what awaiting it gives:
  the response object, of which the handler reads \<^verbatim>\<open>data\<close>, or a thrown error. The
  upstream service is a parameter of the handler, a function from the call to its outcome.
\<close>

record post_call =
  url :: string
  payload :: json
  headers :: "(string \<times> string) list"

datatype axios_response = AxiosResponse (status: nat) (data: json)

datatype axios_outcome = Resolved axios_response | Rejected js_error

text \<open>
  The response object \<^verbatim>\<open>res\<close> of the framework: its status code, 200 until
  \<^verbatim>\<open>res.status\<close> sets another, and the JSON value sent by \<^verbatim>\<open>res.json\<close>.
\<close>

record http_response =
  statusCode :: nat
  body :: "json option"

definition res_init :: http_response where
  "res_init = \<lparr>statusCode = 200, body = None\<rparr>"

definition res_status :: "nat \<Rightarrow> http_response \<Rightarrow> http_response" where
  "res_status code res = res\<lparr>statusCode := code\<rparr>"

definition res_json :: "json \<Rightarrow> http_response \<Rightarrow> http_response" where
  "res_json v res = res\<lparr>body := Some v\<rparr>"

subsection \<open>\<^verbatim>\<open>app.post("/pay", ...)\<close>\<close>

text \<open>
  The arguments of \<^verbatim>\<open>axios.post\<close>, evaluated in the order of the source: the clock is
  read first, then \<^verbatim>\<open>req.body.amount\<close>, \<^verbatim>\<open>req.body.email\<close> and \<^verbatim>\<open>req.body.name\<close>, each of
  which throws when \<^verbatim>\<open>req.body\<close> is \<^verbatim>\<open>undefined\<close>, then the environment variable
  \<^verbatim>\<open>FLW_SECRET_KEY\<close>, which the template literal prints as \<^verbatim>\<open>undefined\<close> when unset.
\<close>

definition payment_call :: "int \<Rightarrow> string option \<Rightarrow> json \<Rightarrow> js_error + post_call" where
  "payment_call now FLW_SECRET_KEY req_body =
     (let tx_ref = Number_toString now in
      (case get_prop req_body ''amount'' of
         Inl err \<Rightarrow> Inl err
       | Inr amount \<Rightarrow>
      (case get_prop req_body ''email'' of
         Inl err \<Rightarrow> Inl err
       | Inr email \<Rightarrow>
      (case get_prop req_body ''name'' of
         Inl err \<Rightarrow> Inl err
       | Inr name \<Rightarrow>
           Inr \<lparr>url = ''https://api.flutterwave.com/v3/payments'',
                payload = JObject
                  [(''tx_ref'', JString tx_ref),
                   (''amount'', amount),
                   (''currency'', JString ''KES''),
                   (''redirect_url'', JString ''https://your-site.com/callback''),
                   (''customer'', JObject [(''email'', email), (''name'', name)]),
                   (''payment_options'', JString ''card,mpesa,ussd'')],
                headers =
                  [(''Authorization'',
                    ''Bearer '' @
                      (case FLW_SECRET_KEY of None \<Rightarrow> ''undefined'' | Some k \<Rightarrow> k))]\<rparr>))))"

text \<open>
  The \<^verbatim>\<open>try\<close> block: build the call, await it, and pass \<^verbatim>\<open>response.data\<close> to
  \<^verbatim>\<open>res.json\<close>; whatever is thrown on the way reaches the \<^verbatim>\<open>catch\<close>.
\<close>

definition pay_try ::
  "int \<Rightarrow> string option \<Rightarrow> (post_call \<Rightarrow> axios_outcome) \<Rightarrow> json \<Rightarrow> js_error + http_response" where
  "pay_try now FLW_SECRET_KEY axios_post req_body =
     (case payment_call now FLW_SECRET_KEY req_body of
        Inl err \<Rightarrow> Inl err
      | Inr c \<Rightarrow>
          (case axios_post c of
             Rejected err \<Rightarrow> Inl err
           | Resolved response \<Rightarrow> Inr (res_json (data response) res_init)))"

definition pay ::
  "int \<Rightarrow> string option \<Rightarrow> (post_call \<Rightarrow> axios_outcome) \<Rightarrow> json \<Rightarrow> http_response" where
  "pay now FLW_SECRET_KEY axios_post req_body =
     (case pay_try now FLW_SECRET_KEY axios_post req_body of
        Inr res \<Rightarrow> res
      | Inl error \<Rightarrow>
          res_json (JObject [(''error'', JString (message error))]) (res_status 500 res_init))"

section \<open>Properties of the animation state manager\<close>

lemma contains_add [simp]: "contains (add ts t) u = (u = t \<or> contains ts u)"
  by (auto simp: contains_def add_def)

lemma contains_remove [simp]: "contains (remove ts t) u = (u \<noteq> t \<and> contains ts u)"
  by (auto simp: contains_def remove_def)

lemma set_add: "set (add ts t) = insert t (set ts)"
  by (auto simp: contains_def add_def)

lemma set_remove: "set (remove ts t) = set ts - {t}"
  by (auto simp: remove_def)

lemma classList_set_classList [simp]:
  "classList (set_classList b e ts) e' = (if e' = e then ts else classList b e')"
  by (simp add: set_classList_def)

lemma warnings_set_classList [simp]: "warnings (set_classList b e ts) = warnings b"
  by (simp add: set_classList_def)

text \<open>
  C1. For every element and every prior class list, \<^verbatim>\<open>manageAnimationState(element, 'start')\<close>
  returns normally with \<^verbatim>\<open>success = true\<close> and leaves the class \<^verbatim>\<open>animating\<close> on the
  element (the tokens of the element are the old ones plus \<^verbatim>\<open>animating\<close>), and with
  \<^verbatim>\<open>'stop'\<close> it returns normally with \<^verbatim>\<open>success = true\<close> and leaves the class off the
  element (the tokens are the old ones minus \<^verbatim>\<open>animating\<close>); whether the class was
  present at entry plays no role.
\<close>

theorem manageAnimationState_start_stop:
  "(\<exists>r b'. manageAnimationState b (Element e) ''start'' = Inr (r, b')
      \<and> success r
      \<and> contains (classList b' e) ''animating''
      \<and> set (classList b' e) = insert ''animating'' (set (classList b e)))
   \<and> (\<exists>r b'. manageAnimationState b (Element e) ''stop'' = Inr (r, b')
      \<and> success r
      \<and> \<not> contains (classList b' e) ''animating''
      \<and> set (classList b' e) = set (classList b e) - {''animating''})"
  by (simp add: manageAnimationState_def set_add set_remove)

lemma add_idem: "add (add ts t) t = add ts t"
  by (simp add: add_def contains_def)

lemma remove_idem: "remove (remove ts t) t = remove ts t"
  by (simp add: remove_def)

lemma contains_toggle [simp]:
  "contains (snd (toggle ts t)) u = (if u = t then \<not> contains ts t else contains ts u)"
  by (auto simp: toggle_def)

lemma set_toggle_toggle: "set (snd (toggle (snd (toggle ts t)) t)) = set ts"
  by (auto simp: toggle_def set_add set_remove contains_def)

lemma set_classList_twice [simp]:
  "set_classList (set_classList b e ts) e us = set_classList b e us"
  by (simp add: set_classList_def)

text \<open>
  C2. For every element, \<^verbatim>\<open>manageAnimationState(element, 'toggle')\<close> returns normally and
  flips the presence of the class \<^verbatim>\<open>animating\<close> as read at entry; \<^verbatim>\<open>success\<close> is the
  negation of the state at entry, which is the class state after the call.
\<close>

theorem manageAnimationState_toggle:
  "\<exists>r b'. manageAnimationState b (Element e) ''toggle'' = Inr (r, b')
     \<and> contains (classList b' e) ''animating'' = (\<not> contains (classList b e) ''animating'')
     \<and> success r = (\<not> contains (classList b e) ''animating'')
     \<and> success r = contains (classList b' e) ''animating''"
  by (simp add: manageAnimationState_def)

text \<open>
  C3. For every element and every action string other than \<^verbatim>\<open>start\<close>, \<^verbatim>\<open>stop\<close> and
  \<^verbatim>\<open>toggle\<close>, the call returns normally (nothing is thrown), no class list of the page
  changes, one warning naming the action is appended to the console, and \<^verbatim>\<open>success\<close>
  is false.
\<close>

theorem manageAnimationState_invalid_action:
  assumes "action \<noteq> ''start''" and "action \<noteq> ''stop''" and "action \<noteq> ''toggle''"
  shows "\<exists>r b'. manageAnimationState b (Element e) action = Inr (r, b')
     \<and> classList b' = classList b
     \<and> warnings b' = warnings b @ [[''Invalid animation action:'', action]]
     \<and> \<not> success r"
  using assms by (simp add: manageAnimationState_def console_warn_def)

theorem manageAnimationState_invalid_action_witness:
  "''bogus'' \<noteq> ''start'' \<and> ''bogus'' \<noteq> ''stop'' \<and> ''bogus'' \<noteq> ''toggle''
   \<and> (\<exists>r b'. manageAnimationState \<lparr>classList = (\<lambda>e. [''box'', ''animating'']), warnings = []\<rparr>
                 (Element 0) ''bogus'' = Inr (r, b')
     \<and> classList b' = (\<lambda>e. [''box'', ''animating''])
     \<and> warnings b' = [[''Invalid animation action:'', ''bogus'']]
     \<and> \<not> success r)"
  using manageAnimationState_invalid_action
    [of "''bogus''" "\<lparr>classList = (\<lambda>e. [''box'', ''animating'']), warnings = []\<rparr>" 0]
  by simp

text \<open>
  C8. For every element and every action string, valid or not, the returned record has
  \<^verbatim>\<open>newState\<close> equal to the presence of the class \<^verbatim>\<open>animating\<close> on the element after the
  operation, and \<^verbatim>\<open>element\<close> equal to the reference passed in.
\<close>

theorem manageAnimationState_newState_element:
  "\<exists>r b'. manageAnimationState b (Element e) action = Inr (r, b')
     \<and> newState r = contains (classList b' e) ''animating''
     \<and> element r = Element e"
  by (simp add: manageAnimationState_def split: prod.splits)

lemma manageAnimationState_toggle_eq:
  "manageAnimationState b (Element e) ''toggle'' =
     Inr (\<lparr>success = \<not> contains (classList b e) ''animating'',
           newState = \<not> contains (classList b e) ''animating'',
           element = Element e\<rparr>,
          set_classList b e (snd (toggle (classList b e) ''animating'')))"
  by (simp add: manageAnimationState_def)

text \<open>
  Two toggles in a row give back the tokens the element had, so an even number of them
  does: induction on the number of pairs, for any page the pairs start from.
\<close>

lemma toggle_pairs:
  "\<exists>rs b'. manage_all b (Element e) (replicate (2 * k) ''toggle'') = Inr (rs, b')
     \<and> (\<forall>x. set (classList b' x) = set (classList b x))
     \<and> warnings b' = warnings b"
proof (induction k arbitrary: b)
  case 0
  show ?case by simp
next
  case (Suc k)
  let ?b1 = "set_classList b e (snd (toggle (classList b e) ''animating''))"
  let ?b2 = "set_classList ?b1 e (snd (toggle (classList ?b1 e) ''animating''))"
  from Suc.IH [of ?b2] obtain rs b' where
    run: "manage_all ?b2 (Element e) (replicate (2 * k) ''toggle'') = Inr (rs, b')"
    and same: "\<forall>x. set (classList b' x) = set (classList ?b2 x)"
    and warn: "warnings b' = warnings ?b2"
    by blast
  have "\<forall>x. set (classList ?b2 x) = set (classList b x)"
    by (simp add: set_toggle_toggle)
  with same have "\<forall>x. set (classList b' x) = set (classList b x)"
    by simp
  moreover have "warnings b' = warnings b"
    using warn by simp
  moreover have "\<exists>rs'. manage_all b (Element e) (replicate (2 * Suc k) ''toggle'') = Inr (rs', b')"
    using run by (simp add: manageAnimationState_toggle_eq)
  ultimately show ?case by blast
qed

text \<open>
  The token comes back at the end of the list, so a pair of toggles gives back the tokens
  but not always their order; the class state is therefore compared as a set of tokens.
\<close>

lemma toggle_twice_moves_token:
  "snd (toggle (snd (toggle [''animating'', ''box''] ''animating'')) ''animating'')
     = [''box'', ''animating'']"
  by (simp add: toggle_def add_def remove_def contains_def)

text \<open>
  C9. For every element and every initial class list, \<^verbatim>\<open>manageAnimationState(el, 'start')\<close>
  followed by \<^verbatim>\<open>manageAnimationState(el, 'stop')\<close> leaves the class \<^verbatim>\<open>animating\<close> absent,
  and an even number of calls with \<^verbatim>\<open>'toggle'\<close> leaves the class present exactly when it
  was at the start, with every element of the page holding the tokens it held.
\<close>

theorem manageAnimationState_start_stop_toggle_pairs:
  "(\<exists>rs b'. manage_all b (Element e) [''start'', ''stop''] = Inr (rs, b')
      \<and> \<not> contains (classList b' e) ''animating'')
   \<and> (\<exists>rs b'. manage_all b (Element e) (replicate (2 * k) ''toggle'') = Inr (rs, b')
      \<and> contains (classList b' e) ''animating'' = contains (classList b e) ''animating''
      \<and> (\<forall>x. set (classList b' x) = set (classList b x)))"
proof
  show "\<exists>rs b'. manage_all b (Element e) [''start'', ''stop''] = Inr (rs, b')
      \<and> \<not> contains (classList b' e) ''animating''"
    by (simp add: manageAnimationState_def)
next
  from toggle_pairs [of b e k] obtain rs b' where
    "manage_all b (Element e) (replicate (2 * k) ''toggle'') = Inr (rs, b')"
    and same: "\<forall>x. set (classList b' x) = set (classList b x)"
    by blast
  moreover from same have "contains (classList b' e) ''animating'' = contains (classList b e) ''animating''"
    by (simp add: contains_def)
  ultimately show "\<exists>rs b'. manage_all b (Element e) (replicate (2 * k) ''toggle'') = Inr (rs, b')
      \<and> contains (classList b' e) ''animating'' = contains (classList b e) ''animating''
      \<and> (\<forall>x. set (classList b' x) = set (classList b x))"
    by blast
qed

text \<open>
  C10. From any prior class list, a call with \<^verbatim>\<open>'start'\<close> returns \<^verbatim>\<open>newState = true\<close> with
  the class present, and a call with \<^verbatim>\<open>'stop'\<close> returns \<^verbatim>\<open>newState = false\<close> with the
  class absent; the same action called again at once leaves the page exactly as the first
  call left it and returns the same \<^verbatim>\<open>newState\<close>.
\<close>

theorem manageAnimationState_start_stop_idempotent:
  "(\<exists>r1 b1 r2. manageAnimationState b (Element e) ''start'' = Inr (r1, b1)
      \<and> newState r1 \<and> contains (classList b1 e) ''animating''
      \<and> manage_all b (Element e) [''start'', ''start''] = Inr ([r1, r2], b1)
      \<and> newState r2 = newState r1)
   \<and> (\<exists>r1 b1 r2. manageAnimationState b (Element e) ''stop'' = Inr (r1, b1)
      \<and> \<not> newState r1 \<and> \<not> contains (classList b1 e) ''animating''
      \<and> manage_all b (Element e) [''stop'', ''stop''] = Inr ([r1, r2], b1)
      \<and> newState r2 = newState r1)"
  by (simp add: manageAnimationState_def add_idem remove_idem)

section \<open>Properties of the duration calculator and the counter\<close>

text \<open>
  C6. For all numbers \<^verbatim>\<open>base\<close>, \<^verbatim>\<open>mult\<close> and \<^verbatim>\<open>size\<close>, in any number type,
  \<^verbatim>\<open>calculateAnimationDuration(base, mult, size)\<close> is \<^verbatim>\<open>base * mult * (size / 100)\<close>; it is
  a function of its three arguments alone, defined on all of them, and it clamps nothing:
  over the reals a size of zero gives zero, and base 500, multiplier 1 and size -20 give
  the negative duration -100.
\<close>

theorem calculateAnimationDuration_formula:
  "calculateAnimationDuration baseDuration speedMultiplier elementSize
     = baseDuration * speedMultiplier * (elementSize / 100)
   \<and> calculateAnimationDuration (b::real) m 0 = 0
   \<and> calculateAnimationDuration (500::real) 1 (- 20) = - 100"
  by (simp add: calculateAnimationDuration_def)

lemma initialValue_call [simp]: "initialValue (snd (call x c)) = initialValue c"
  by (cases x) (simp_all add: increment_def decrement_def reset_def getValue_def Let_def)

lemma initialValue_calls [simp]: "initialValue (calls xs c) = initialValue c"
  by (induction xs arbitrary: c) simp_all

text \<open>
  C7. On the counter made by \<^verbatim>\<open>createScopedCounter(5)\<close>, \<^verbatim>\<open>increment()\<close> returns 6, then
  \<^verbatim>\<open>decrement(3)\<close> returns 3, then \<^verbatim>\<open>reset()\<close> returns 5. In general, after any sequence
  of method calls, \<^verbatim>\<open>reset()\<close> returns the value given at construction and leaves it as
  the count (zero only when no value was given), and \<^verbatim>\<open>getValue()\<close> returns the count and
  leaves the counter as it was.
\<close>

theorem createScopedCounter_methods:
  "(let c0 = createScopedCounter (Some 5);
        (v1, c1) = increment None c0;
        (v2, c2) = decrement (Some 3) c1;
        (v3, c3) = reset c2
    in v1 = 6 \<and> v2 = 3 \<and> v3 = 5)
   \<and> fst (reset (calls xs (createScopedCounter (Some i)))) = i
   \<and> count (snd (reset (calls xs (createScopedCounter (Some i))))) = i
   \<and> fst (reset (calls xs (createScopedCounter None))) = 0
   \<and> getValue c = (count c, c)"
  by (simp add: createScopedCounter_def increment_def decrement_def reset_def getValue_def)

section \<open>Properties of the payment relay\<close>

subsection \<open>The transaction reference denotes the clock value\<close>

lemma digit_cases:
  assumes "d < (10::nat)"
  shows "d = 0 \<or> d = 1 \<or> d = 2 \<or> d = 3 \<or> d = 4 \<or> d = 5 \<or> d = 6 \<or> d = 7 \<or> d = 8 \<or> d = 9"
  using assms by arith

lemma digit_value_digit_char: "d < 10 \<Longrightarrow> digit_value (digit_char d) = d"
  by (drule digit_cases) (auto simp: digit_char_def digit_value_def)

lemma digit_char_not_minus: "d < 10 \<Longrightarrow> digit_char d \<noteq> CHR ''-''"
  by (drule digit_cases) (auto simp: digit_char_def)

lemma decimal_value_snoc:
  "decimal_value (s @ [c]) = 10 * decimal_value s + digit_value c"
  by (simp add: decimal_value_def)

lemma decimal_value_digits: "decimal_value (digits n) = n"
proof (induction n rule: digits.induct)
  case (1 n)
  show ?case
  proof (cases "n < 10")
    case True
    then show ?thesis
      by (simp add: digits.simps [of n] decimal_value_def digit_value_digit_char)
  next
    case False
    with "1" have "decimal_value (digits (n div 10)) = n div 10"
      by simp
    with False show ?thesis
      by (simp add: digits.simps [of n] decimal_value_snoc digit_value_digit_char)
  qed
qed

lemma hd_digits: "\<exists>c cs. digits n = c # cs \<and> c \<noteq> CHR ''-''"
proof (induction n rule: digits.induct)
  case (1 n)
  show ?case
  proof (cases "n < 10")
    case True
    then show ?thesis
      by (simp add: digits.simps [of n] digit_char_not_minus)
  next
    case False
    with "1" obtain c cs where "digits (n div 10) = c # cs" and "c \<noteq> CHR ''-''"
      by blast
    with False show ?thesis
      by (simp add: digits.simps [of n])
  qed
qed

lemma Number_of_string_toString: "Number_of_string (Number_toString n) = n"
proof (cases "n < 0")
  case True
  then show ?thesis
    by (simp add: Number_of_string_def Number_toString_def decimal_value_digits)
next
  case False
  obtain c cs where d: "digits (nat n) = c # cs" and c: "c \<noteq> CHR ''-''"
    using hd_digits by blast
  have "decimal_value (c # cs) = nat n"
    using decimal_value_digits [of "nat n"] d by simp
  with False d c show ?thesis
    by (simp add: Number_of_string_def Number_toString_def)
qed

subsection \<open>The handler\<close>

lemma get_prop_defined:
  "req_body \<noteq> JUndefined \<Longrightarrow> req_body \<noteq> JNull \<Longrightarrow> \<exists>v. get_prop req_body key = Inr v"
  by (cases req_body) simp_all

lemma payment_call_defined:
  assumes "req_body \<noteq> JUndefined" and "req_body \<noteq> JNull"
  shows "\<exists>c. payment_call now key req_body = Inr c"
proof -
  obtain a where "get_prop req_body ''amount'' = Inr a"
    using assms get_prop_defined by blast
  moreover obtain e where "get_prop req_body ''email'' = Inr e"
    using assms get_prop_defined by blast
  moreover obtain n where "get_prop req_body ''name'' = Inr n"
    using assms get_prop_defined by blast
  ultimately show ?thesis
    by (simp add: payment_call_def)
qed

text \<open>
  Without a parsed body the first property read throws inside the \<^verbatim>\<open>try\<close>, nothing is
  sent upstream, and the \<^verbatim>\<open>catch\<close> answers 500 with the message of the \<^verbatim>\<open>TypeError\<close>.
\<close>

lemma pay_without_body:
  "pay now key axios_post JUndefined =
     \<lparr>statusCode = 500,
      body = Some (JObject [(''error'',
        JString ''Cannot read properties of undefined (reading 'amount')'')])\<rparr>"
  by (simp add: pay_def pay_try_def payment_call_def res_json_def res_status_def res_init_def
      quoted_def)

lemma toString_example: "Number_toString 1762134000000 = ''1762134000000''"
  by (simp add: Number_toString_def digits.simps digit_char_def)

text \<open>
  C4. For every request to \<^verbatim>\<open>POST /pay\<close> whose body has been parsed, the call is built
  and sent upstream, and: when the upstream call resolves, the handler responds with
  status 200 and the \<^verbatim>\<open>data\<close> of the upstream response unchanged; when it rejects, for
  whatever reason, the handler responds with status 500 and the body
  \<^verbatim>\<open>{error: <message>}\<close> holding the message of the thrown error, in which the cause of
  the failure does not appear.
\<close>

theorem pay_response:
  assumes "req_body \<noteq> JUndefined" and "req_body \<noteq> JNull"
  shows "\<exists>c. payment_call now key req_body = Inr c
     \<and> (\<forall>response. axios_post c = Resolved response \<longrightarrow>
           pay now key axios_post req_body = \<lparr>statusCode = 200, body = Some (data response)\<rparr>)
     \<and> (\<forall>err. axios_post c = Rejected err \<longrightarrow>
           pay now key axios_post req_body =
             \<lparr>statusCode = 500, body = Some (JObject [(''error'', JString (message err))])\<rparr>)
     \<and> (\<forall>cause m. axios_post c = Rejected (AxiosError cause m) \<longrightarrow>
           pay now key axios_post req_body =
             \<lparr>statusCode = 500, body = Some (JObject [(''error'', JString m)])\<rparr>)"
proof -
  obtain c where "payment_call now key req_body = Inr c"
    using assms payment_call_defined by blast
  then show ?thesis
    by (simp add: pay_def pay_try_def res_json_def res_status_def res_init_def)
qed

theorem pay_response_witness:
  "JObject [(''amount'', JNumber 100), (''email'', JString ''a@b.c''), (''name'', JString ''Ann'')]
     \<noteq> JUndefined
   \<and> JObject [(''amount'', JNumber 100), (''email'', JString ''a@b.c''), (''name'', JString ''Ann'')]
     \<noteq> JNull
   \<and> pay 1762134000000 (Some ''FLWSECK_TEST'')
        (\<lambda>c. Resolved (AxiosResponse 200 (JObject [(''status'', JString ''success'')])))
        (JObject [(''amount'', JNumber 100), (''email'', JString ''a@b.c''), (''name'', JString ''Ann'')])
      = \<lparr>statusCode = 200, body = Some (JObject [(''status'', JString ''success'')])\<rparr>
   \<and> pay 1762134000000 (Some ''FLWSECK_TEST'')
        (\<lambda>c. Rejected (AxiosError (UpstreamStatus 401) ''Request failed with status code 401''))
        (JObject [(''amount'', JNumber 100), (''email'', JString ''a@b.c''), (''name'', JString ''Ann'')])
      = \<lparr>statusCode = 500,
         body = Some (JObject [(''error'', JString ''Request failed with status code 401'')])\<rparr>"
proof -
  let ?body = "JObject [(''amount'', JNumber 100), (''email'', JString ''a@b.c''), (''name'', JString ''Ann'')]"
  let ?ok = "\<lambda>c::post_call. Resolved (AxiosResponse 200 (JObject [(''status'', JString ''success'')]))"
  let ?ko = "\<lambda>c::post_call. Rejected (AxiosError (UpstreamStatus 401) ''Request failed with status code 401'')"
  have h1: "?body \<noteq> JUndefined" and h2: "?body \<noteq> JNull"
    by simp_all
  from pay_response [OF h1 h2, of 1762134000000 "Some ''FLWSECK_TEST''" ?ok]
  obtain c where "\<forall>response. ?ok c = Resolved response \<longrightarrow>
      pay 1762134000000 (Some ''FLWSECK_TEST'') ?ok ?body
        = \<lparr>statusCode = 200, body = Some (data response)\<rparr>"
    by blast
  then have ok: "pay 1762134000000 (Some ''FLWSECK_TEST'') ?ok ?body
      = \<lparr>statusCode = 200, body = Some (JObject [(''status'', JString ''success'')])\<rparr>"
    by simp
  from pay_response [OF h1 h2, of 1762134000000 "Some ''FLWSECK_TEST''" ?ko]
  obtain c' where "\<forall>cause m. ?ko c' = Rejected (AxiosError cause m) \<longrightarrow>
      pay 1762134000000 (Some ''FLWSECK_TEST'') ?ko ?body
        = \<lparr>statusCode = 500, body = Some (JObject [(''error'', JString m)])\<rparr>"
    by blast
  then have ko: "pay 1762134000000 (Some ''FLWSECK_TEST'') ?ko ?body
      = \<lparr>statusCode = 500,
         body = Some (JObject [(''error'', JString ''Request failed with status code 401'')])\<rparr>"
    by simp
  from h1 h2 ok ko show ?thesis
    by blast
qed

text \<open>
  C5. For every parsed body of a \<^verbatim>\<open>POST /pay\<close> request, the body of the upstream request
  built by the handler carries the inbound \<^verbatim>\<open>amount\<close> at top level and the inbound
  \<^verbatim>\<open>email\<close> and \<^verbatim>\<open>name\<close> under \<^verbatim>\<open>customer\<close>, each as read from the request; its
  \<^verbatim>\<open>tx_ref\<close> is the clock value in milliseconds written in decimal, from which the
  clock value is read back; and \<^verbatim>\<open>currency\<close>, \<^verbatim>\<open>redirect_url\<close> and \<^verbatim>\<open>payment_options\<close>
  are the same three constants whatever the request holds.
\<close>

theorem payment_call_payload:
  assumes "req_body \<noteq> JUndefined" and "req_body \<noteq> JNull"
  shows "\<exists>c customer tx_ref. payment_call now key req_body = Inr c
     \<and> get_prop (payload c) ''amount'' = get_prop req_body ''amount''
     \<and> get_prop (payload c) ''customer'' = Inr customer
     \<and> get_prop customer ''email'' = get_prop req_body ''email''
     \<and> get_prop customer ''name'' = get_prop req_body ''name''
     \<and> get_prop (payload c) ''tx_ref'' = Inr (JString tx_ref)
     \<and> tx_ref = Number_toString now
     \<and> Number_of_string tx_ref = now
     \<and> get_prop (payload c) ''currency'' = Inr (JString ''KES'')
     \<and> get_prop (payload c) ''redirect_url'' = Inr (JString ''https://your-site.com/callback'')
     \<and> get_prop (payload c) ''payment_options'' = Inr (JString ''card,mpesa,ussd'')"
proof -
  obtain a where a: "get_prop req_body ''amount'' = Inr a"
    using assms get_prop_defined by blast
  obtain e where e: "get_prop req_body ''email'' = Inr e"
    using assms get_prop_defined by blast
  obtain n where n: "get_prop req_body ''name'' = Inr n"
    using assms get_prop_defined by blast
  show ?thesis
    by (simp add: payment_call_def a e n Number_of_string_toString)
qed

theorem payment_call_payload_witness:
  "JObject [(''amount'', JNumber 100), (''email'', JString ''a@b.c''), (''name'', JString ''Ann'')]
     \<noteq> JUndefined
   \<and> JObject [(''amount'', JNumber 100), (''email'', JString ''a@b.c''), (''name'', JString ''Ann'')]
     \<noteq> JNull
   \<and> (\<exists>c customer. payment_call 1762134000000 None
         (JObject [(''amount'', JNumber 100), (''email'', JString ''a@b.c''), (''name'', JString ''Ann'')])
         = Inr c
     \<and> get_prop (payload c) ''amount'' = Inr (JNumber 100)
     \<and> get_prop (payload c) ''customer'' = Inr customer
     \<and> get_prop customer ''email'' = Inr (JString ''a@b.c'')
     \<and> get_prop customer ''name'' = Inr (JString ''Ann'')
     \<and> get_prop (payload c) ''tx_ref'' = Inr (JString ''1762134000000'')
     \<and> get_prop (payload c) ''currency'' = Inr (JString ''KES''))"
proof -
  let ?body = "JObject [(''amount'', JNumber 100), (''email'', JString ''a@b.c''), (''name'', JString ''Ann'')]"
  have h1: "?body \<noteq> JUndefined" and h2: "?body \<noteq> JNull"
    by simp_all
  from payment_call_payload [OF h1 h2, of 1762134000000 None]
  obtain c customer tx_ref where
    "payment_call 1762134000000 None ?body = Inr c"
    "get_prop (payload c) ''amount'' = get_prop ?body ''amount''"
    "get_prop (payload c) ''customer'' = Inr customer"
    "get_prop customer ''email'' = get_prop ?body ''email''"
    "get_prop customer ''name'' = get_prop ?body ''name''"
    "get_prop (payload c) ''tx_ref'' = Inr (JString tx_ref)"
    "tx_ref = Number_toString 1762134000000"
    "get_prop (payload c) ''currency'' = Inr (JString ''KES'')"
    by blast
  then have "payment_call 1762134000000 None ?body = Inr c
     \<and> get_prop (payload c) ''amount'' = Inr (JNumber 100)
     \<and> get_prop (payload c) ''customer'' = Inr customer
     \<and> get_prop customer ''email'' = Inr (JString ''a@b.c'')
     \<and> get_prop customer ''name'' = Inr (JString ''Ann'')
     \<and> get_prop (payload c) ''tx_ref'' = Inr (JString ''1762134000000'')
     \<and> get_prop (payload c) ''currency'' = Inr (JString ''KES'')"
    by (simp add: toString_example)
  with h1 h2 show ?thesis
    by blast
qed

end
